theory Spec2Isabelle
  imports Complex_Main "HOL-Library.Sublist" "HOL-Library.DAList"
begin

section \<open>The OpenAI-compatible client adapter of talemate\<close>

text \<open>
  A shallow embedding of \<^verbatim>\<open>src/talemate/client/openai_compat.py\<close>, the class
  \<^verbatim>\<open>OpenAICompatibleClient\<close>. Methods that mutate \<^verbatim>\<open>self\<close> or a dictionary
  argument take the old value and return the new one; a method that can raise returns
  its outcome as a sum, \<open>Inl\<close> carrying the exception.
\<close>

subsection \<open>Python values and exceptions\<close>

text \<open>
  The exceptions that occur in the adapter. All of them are instances of Python's
  \<^verbatim>\<open>Exception\<close> class, the class that the second handler of \<^verbatim>\<open>generate\<close> names.
  Signals that are not (task cancellation, interpreter exit) are not failures of a
  call and are outside the model.
\<close>

datatype py_exception =
    KeyError
  | ValueError
  | TypeError
  | IndexError
  | OverflowError
  | PermissionDeniedError
  | NotFoundError
  | APIConnectionError

text \<open>
  A dynamically typed value. A \<^verbatim>\<open>float\<close> is carried as an element of the type
  parameter \<open>'f\<close>: floating-point arithmetic is not modelled, the operations on floats
  that the adapter reaches are parameters, collected in the record \<open>python\<close>.
  A \<^verbatim>\<open>str\<close> is the list of the bytes of its UTF-8 encoding; searching for, splitting
  at and replacing an ASCII pattern give the same result on bytes and on code points.
\<close>

datatype 'f pyval =
    PNone
  | PBool bool
  | PInt int
  | PFloat 'f
  | PStr string

record ('f, 'g) python =
  float_bool :: "'f \<Rightarrow> bool"
  float_int :: "'f \<Rightarrow> py_exception + int"
  str_int :: "string \<Rightarrow> py_exception + int"
  int_float :: "int \<Rightarrow> py_exception + 'f"
  float_add :: "'f \<Rightarrow> 'f \<Rightarrow> 'f"
  float_mul :: "'f \<Rightarrow> 'f \<Rightarrow> 'f"
  float_lit_0_3 :: "'f"
  random_uniform :: "'f \<Rightarrow> 'f \<Rightarrow> 'g \<Rightarrow> 'f \<times> 'g"

text \<open>Truth value testing, as \<^verbatim>\<open>if x\<close>, \<^verbatim>\<open>not x\<close> and \<^verbatim>\<open>x or y\<close> apply it.\<close>

fun truthy :: "('f, 'g) python \<Rightarrow> 'f pyval \<Rightarrow> bool" where
  "truthy py PNone = False"
| "truthy py (PBool b) = b"
| "truthy py (PInt n) = (n \<noteq> 0)"
| "truthy py (PFloat x) = float_bool py x"
| "truthy py (PStr s) = (s \<noteq> [])"

text \<open>\<^verbatim>\<open>x or y\<close> is \<^verbatim>\<open>x\<close> when \<^verbatim>\<open>x\<close> is true, and \<^verbatim>\<open>y\<close> otherwise.\<close>

definition py_or :: "('f, 'g) python \<Rightarrow> 'f pyval \<Rightarrow> 'f pyval \<Rightarrow> 'f pyval" where
  "py_or py x y = (if truthy py x then x else y)"

text \<open>The builtin \<^verbatim>\<open>int(x)\<close>.\<close>

fun py_int :: "('f, 'g) python \<Rightarrow> 'f pyval \<Rightarrow> py_exception + int" where
  "py_int py PNone = Inl TypeError"
| "py_int py (PBool b) = Inr (if b then 1 else 0)"
| "py_int py (PInt n) = Inr n"
| "py_int py (PFloat x) = float_int py x"
| "py_int py (PStr s) = str_int py s"

subsection \<open>String operations\<close>

text \<open>\<^verbatim>\<open>sub in s\<close>: \<open>sub\<close> occurs in \<open>s\<close> as a contiguous block.\<close>

fun py_in :: "'a list \<Rightarrow> 'a list \<Rightarrow> bool" where
  "py_in sub [] = (sub = [])"
| "py_in sub (c # cs) = (prefix sub (c # cs) \<or> py_in sub cs)"

text \<open>
  The text before and after the leftmost occurrence of \<open>sep\<close>, when there is one.
\<close>

fun split_first :: "'a list \<Rightarrow> 'a list \<Rightarrow> ('a list \<times> 'a list) option" where
  "split_first sep [] = (if sep = [] then Some ([], []) else None)"
| "split_first sep (c # cs) =
     (if prefix sep (c # cs) then Some ([], drop (length sep) (c # cs))
      else map_option (\<lambda>(l, r). (c # l, r)) (split_first sep cs))"

text \<open>
  \<^verbatim>\<open>s.split(sep, 1)\<close>: at most one split, at the leftmost occurrence; an empty
  separator raises.
\<close>

definition py_split1 :: "'a list \<Rightarrow> 'a list \<Rightarrow> py_exception + 'a list list" where
  "py_split1 sep s =
     (if sep = [] then Inl ValueError
      else case split_first sep s of
             None \<Rightarrow> Inr [s]
           | Some (l, r) \<Rightarrow> Inr [l, r])"

text \<open>
  \<^verbatim>\<open>s.replace(old, new)\<close>: every occurrence of \<open>old\<close>, found from left to right
  without overlap, is replaced. An empty \<open>old\<close> matches before every element and
  at the end.
\<close>

fun py_replace :: "'a list \<Rightarrow> 'a list \<Rightarrow> 'a list \<Rightarrow> 'a list" where
  "py_replace old new [] = (if old = [] then new else [])"
| "py_replace old new (c # cs) =
     (if old = [] then new @ c # py_replace old new cs
      else if prefix old (c # cs)
        then new @ py_replace old new (drop (length old) (c # cs))
        else c # py_replace old new cs)"

text \<open>
  \<^verbatim>\<open>s.strip()\<close> on the ASCII range: leading and trailing whitespace removed.
\<close>

definition py_isspace :: "char \<Rightarrow> bool" where
  "py_isspace c = (of_char c \<in> {9, 10, 11, 12, 13, 28, 29, 30, 31, 32 :: nat})"

definition py_strip :: "string \<Rightarrow> string" where
  "py_strip s = rev (dropWhile py_isspace (rev (dropWhile py_isspace s)))"

subsection \<open>Dictionaries\<close>

text \<open>
  A \<^verbatim>\<open>dict\<close> with string keys: an association list in insertion order whose
  keys are distinct. Assigning to a new key appends the entry, assigning to an old key
  keeps its place, as in Python.
\<close>

type_synonym 'f dict = "(string, 'f pyval) alist"

definition dict_keys :: "'f dict \<Rightarrow> string list" where
  "dict_keys d = map fst (DAList.impl_of d)"

definition dict_contains :: "string \<Rightarrow> 'f dict \<Rightarrow> bool" where
  "dict_contains k d = (k \<in> set (dict_keys d))"

text \<open>\<^verbatim>\<open>d[k]\<close> raises on a missing key; \<^verbatim>\<open>d.get(k, default)\<close> does not.\<close>

definition dict_getitem :: "'f dict \<Rightarrow> string \<Rightarrow> py_exception + 'f pyval" where
  "dict_getitem d k = (case DAList.lookup d k of None \<Rightarrow> Inl KeyError | Some v \<Rightarrow> Inr v)"

definition dict_get :: "'f dict \<Rightarrow> string \<Rightarrow> 'f pyval \<Rightarrow> 'f pyval" where
  "dict_get d k dflt = (case DAList.lookup d k of None \<Rightarrow> dflt | Some v \<Rightarrow> v)"

definition dict_setitem :: "string \<Rightarrow> 'f pyval \<Rightarrow> 'f dict \<Rightarrow> 'f dict" where
  "dict_setitem k v d = DAList.update k v d"

definition dict_delitem :: "string \<Rightarrow> 'f dict \<Rightarrow> py_exception + 'f dict" where
  "dict_delitem k d = (if dict_contains k d then Inr (DAList.delete k d) else Inl KeyError)"

definition dict_pop :: "string \<Rightarrow> 'f dict \<Rightarrow> py_exception + ('f pyval \<times> 'f dict)" where
  "dict_pop k d =
     (case DAList.lookup d k of
        None \<Rightarrow> Inl KeyError
      | Some v \<Rightarrow> Inr (v, DAList.delete k d))"

text \<open>The dictionary written \<^verbatim>\<open>{k1: v1, ...}\<close>.\<close>

definition dict_of :: "(string \<times> 'f pyval) list \<Rightarrow> 'f dict" where
  "dict_of kvs = foldl (\<lambda>d (k, v). dict_setitem k v d) DAList.empty kvs"

subsection \<open>The adapter's state\<close>

text \<open>
  The handle that \<^verbatim>\<open>AsyncOpenAI(base_url=..., api_key=...)\<close> constructs, and the
  attributes of the adapter that the methods below read and write. The attribute
  \<^verbatim>\<open>api_url\<close> and \<^verbatim>\<open>max_token_length\<close> are set up by the base class.
\<close>

datatype 'f http_client = AsyncOpenAI (base_url: "'f pyval") (client_api_key: "'f pyval")

record 'f adapter =
  model_name :: "'f pyval"
  api_key :: "'f pyval"
  api_url :: "'f pyval"
  max_token_length :: "'f pyval"
  api_handles_prompt_template :: "'f pyval"
  client :: "'f http_client"

definition can_be_coerced :: "('f, 'g) python \<Rightarrow> 'f adapter \<Rightarrow> bool" where
  "can_be_coerced py self = (\<not> truthy py (api_handles_prompt_template self))"

subsection \<open>Prompt assembly\<close>

definition bot_marker :: string where
  "bot_marker = ''<|BOT|>''"

definition response_cue :: string where
  "response_cue = ''\<newline>Start your response with: ''"

text \<open>
  \<open>base_prompt_template\<close> stands for the method of the base class, which the
  adapter calls when the API does not handle the template.
\<close>

definition prompt_template ::
  "('f, 'g) python \<Rightarrow> (string \<Rightarrow> string \<Rightarrow> py_exception + string) \<Rightarrow> 'f adapter \<Rightarrow>
     string \<Rightarrow> string \<Rightarrow> py_exception + string" where
  "prompt_template py base_prompt_template self system_message prompt =
     (if \<not> truthy py (api_handles_prompt_template self)
        then base_prompt_template system_message prompt
      else if py_in bot_marker prompt then
        (case py_split1 bot_marker prompt of
           Inl e \<Rightarrow> Inl e
         | Inr [_, right] \<Rightarrow>
             if right \<noteq> [] then Inr (py_replace bot_marker response_cue prompt)
             else Inr (py_replace bot_marker [] prompt)
         | Inr _ \<Rightarrow> Inl ValueError)
      else Inr prompt)"

text \<open>
  The behaviour as the specification words it: the prompt is split at the first marker and
  that marker is replaced by the cue when text follows it, and removed when none does;
  the rest of the prompt stays as it is.
\<close>

definition prompt_template_first_marker_only :: "string \<Rightarrow> string" where
  "prompt_template_first_marker_only prompt =
     (case split_first bot_marker prompt of
        None \<Rightarrow> prompt
      | Some (left, right) \<Rightarrow>
          if right \<noteq> [] then left @ response_cue @ right else left)"

subsection \<open>Configuration\<close>

text \<open>
  \<^verbatim>\<open>set_client(**kwargs)\<close>: takes the key and the template flag from the keywords when
  they are given, constructs a new handle from the stored URL and the key, and takes
  the model name from the keyword \<^verbatim>\<open>model\<close>, else from \<^verbatim>\<open>model_name\<close>, whichever
  is true first, else keeps it.
\<close>

definition set_client :: "('f, 'g) python \<Rightarrow> 'f dict \<Rightarrow> 'f adapter \<Rightarrow> 'f adapter" where
  "set_client py kwargs self =
     (let self1 = self\<lparr>api_key := dict_get kwargs ''api_key'' (api_key self)\<rparr>;
          self2 = self1\<lparr>api_handles_prompt_template :=
                    dict_get kwargs ''api_handles_prompt_template''
                      (api_handles_prompt_template self1)\<rparr>;
          url = api_url self2;
          self3 = self2\<lparr>client := AsyncOpenAI url (api_key self2)\<rparr>
      in self3\<lparr>model_name :=
           py_or py (dict_get kwargs ''model'' PNone)
             (py_or py (dict_get kwargs ''model_name'' PNone) (model_name self3))\<rparr>)"

text \<open>
  \<^verbatim>\<open>reconfigure(**kwargs)\<close>. The result pairs the outcome with the adapter as the call
  leaves it: when \<^verbatim>\<open>int(...)\<close> raises, the attributes assigned before stay assigned
  and \<^verbatim>\<open>set_client\<close> is not reached.
\<close>

definition reconfigure ::
  "('f, 'g) python \<Rightarrow> 'f dict \<Rightarrow> 'f adapter \<Rightarrow> (py_exception + unit) \<times> 'f adapter" where
  "reconfigure py kwargs self =
     (case (if truthy py (dict_get kwargs ''model'' PNone)
            then map_sum id (\<lambda>v. self\<lparr>model_name := v\<rparr>) (dict_getitem kwargs ''model'')
            else Inr self) of
        Inl e \<Rightarrow> (Inl e, self)
      | Inr self1 \<Rightarrow>
     (case (if dict_contains ''api_url'' kwargs
            then map_sum id (\<lambda>v. self1\<lparr>api_url := v\<rparr>) (dict_getitem kwargs ''api_url'')
            else Inr self1) of
        Inl e \<Rightarrow> (Inl e, self1)
      | Inr self2 \<Rightarrow>
     (case (if dict_contains ''max_token_length'' kwargs
            then (case dict_getitem kwargs ''max_token_length'' of
                    Inl e \<Rightarrow> Inl e
                  | Inr v \<Rightarrow>
                      if truthy py v
                      then map_sum id (\<lambda>n. self2\<lparr>max_token_length := PInt n\<rparr>) (py_int py v)
                      else Inr (self2\<lparr>max_token_length := PInt 8192\<rparr>))
            else Inr self2) of
        Inl e \<Rightarrow> (Inl e, self2)
      | Inr self3 \<Rightarrow>
     (case (if dict_contains ''api_key'' kwargs
            then map_sum id (\<lambda>v. self3\<lparr>api_key := v\<rparr>) (dict_getitem kwargs ''api_key'')
            else Inr self3) of
        Inl e \<Rightarrow> (Inl e, self3)
      | Inr self4 \<Rightarrow>
     (case (if dict_contains ''api_handles_prompt_template'' kwargs
            then map_sum id (\<lambda>v. self4\<lparr>api_handles_prompt_template := v\<rparr>)
                   (dict_getitem kwargs ''api_handles_prompt_template'')
            else Inr self4) of
        Inl e \<Rightarrow> (Inl e, self4)
      | Inr self5 \<Rightarrow> (Inr (), set_client py kwargs self5))))))"

text \<open>A sequence of configuration calls on one adapter.\<close>

datatype 'f config_call = Reconfigure "'f dict" | SetClient "'f dict"

fun run_calls :: "('f, 'g) python \<Rightarrow> 'f config_call list \<Rightarrow> 'f adapter \<Rightarrow> 'f adapter" where
  "run_calls py [] self = self"
| "run_calls py (Reconfigure kwargs # calls) self =
     run_calls py calls (snd (reconfigure py kwargs self))"
| "run_calls py (SetClient kwargs # calls) self =
     run_calls py calls (set_client py kwargs self)"

subsection \<open>Parameter tuning\<close>

definition allowed_params :: "string list" where
  "allowed_params = [''max_tokens'', ''presence_penalty'', ''top_p'', ''temperature'']"

text \<open>
  The loop \<^verbatim>\<open>for param in list(parameters.keys())\<close>, over the keys as they were
  before the loop.
\<close>

fun drop_unsupported ::
  "string list \<Rightarrow> 'f dict \<Rightarrow> (py_exception + unit) \<times> 'f dict" where
  "drop_unsupported [] parameters = (Inr (), parameters)"
| "drop_unsupported (param # rest) parameters =
     (if param \<notin> set allowed_params then
        (case dict_delitem param parameters of
           Inl e \<Rightarrow> (Inl e, parameters)
         | Inr parameters' \<Rightarrow> drop_unsupported rest parameters')
      else drop_unsupported rest parameters)"

text \<open>
  \<open>base_tune\<close> stands for \<^verbatim>\<open>tune_prompt_parameters\<close> of the base class: it may change
  the dictionary in any way, and it may raise.
\<close>

definition tune_prompt_parameters ::
  "('f dict \<Rightarrow> string \<Rightarrow> (py_exception + unit) \<times> 'f dict) \<Rightarrow> 'f dict \<Rightarrow> string \<Rightarrow>
     (py_exception + unit) \<times> 'f dict" where
  "tune_prompt_parameters base_tune parameters kind =
     (case base_tune parameters kind of
        (Inl e, parameters0) \<Rightarrow> (Inl e, parameters0)
      | (Inr _, parameters0) \<Rightarrow>
          (case (if dict_contains ''repetition_penalty'' parameters0
                 then (case dict_pop ''repetition_penalty'' parameters0 of
                         Inl e \<Rightarrow> Inl e
                       | Inr (v, popped) \<Rightarrow> Inr (dict_setitem ''presence_penalty'' v popped))
                 else Inr parameters0) of
             Inl e \<Rightarrow> (Inl e, parameters0)
           | Inr parameters1 \<Rightarrow> drop_unsupported (dict_keys parameters1) parameters1))"

subsection \<open>Generation\<close>

text \<open>
  The response of the completions endpoint, and what \<^verbatim>\<open>generate\<close> does to the
  outside: the request it sends and the status it emits with
  \<^verbatim>\<open>emit(channel, message=..., status=...)\<close>.
\<close>

datatype completion_choice = Choice (choice_text: string)

datatype completion = Completion (choices: "completion_choice list")

datatype 'f event =
    Request "'f pyval" "'f dict"
  | Emit string string string

definition is_error_emit :: "'f event \<Rightarrow> bool" where
  "is_error_emit ev = (case ev of Emit channel message status \<Rightarrow> status = ''error'' | _ \<Rightarrow> False)"

text \<open>
  \<^verbatim>\<open>self.client.completions.create(model=self.model_name, **parameters)\<close>. A key
  \<^verbatim>\<open>model\<close> in the dictionary gives the keyword twice, which raises before the
  request is sent. \<open>remote\<close> is the answer of the service to a request.
\<close>

definition completions_create ::
  "('f pyval \<Rightarrow> 'f dict \<Rightarrow> py_exception + completion) \<Rightarrow> 'f pyval \<Rightarrow> 'f dict \<Rightarrow>
     (py_exception + completion) \<times> 'f event list" where
  "completions_create remote model parameters =
     (if dict_contains ''model'' parameters then (Inl TypeError, [])
      else (remote model parameters, [Request model parameters]))"

text \<open>
  \<^verbatim>\<open>generate\<close> returns the text, the parameter dictionary as the call leaves it,
  and the events of the call in order.
\<close>

definition generate ::
  "('f pyval \<Rightarrow> 'f dict \<Rightarrow> py_exception + completion) \<Rightarrow> 'f adapter \<Rightarrow> string \<Rightarrow> 'f dict \<Rightarrow>
     string \<Rightarrow> string \<times> 'f dict \<times> 'f event list" where
  "generate remote self prompt parameters kind =
     (let human_message = [(''role'', ''user''), (''content'', py_strip prompt)];
          parameters1 = dict_setitem ''prompt'' (PStr prompt) parameters;
          (answer, sent) = completions_create remote (model_name self) parameters1
      in case (case answer of
                 Inl e \<Rightarrow> Inl e
               | Inr response \<Rightarrow>
                   (case choices response of
                      [] \<Rightarrow> Inl IndexError
                    | first # _ \<Rightarrow> Inr (choice_text first))) of
           Inr generated \<Rightarrow> (generated, parameters1, sent)
         | Inl e \<Rightarrow>
             if e = PermissionDeniedError
             then ([], parameters1,
                   sent @ [Emit ''status'' ''Client API: Permission Denied'' ''error''])
             else ([], parameters1,
                   sent @ [Emit ''status'' ''Error during generation (check logs)'' ''error'']))"

subsection \<open>Randomised jitter\<close>

text \<open>\<^verbatim>\<open>v + x\<close> for a float \<open>x\<close>: defined on numbers, a type error elsewhere.\<close>

fun py_add_float :: "('f, 'g) python \<Rightarrow> 'f pyval \<Rightarrow> 'f \<Rightarrow> py_exception + 'f" where
  "py_add_float py (PFloat t) x = Inr (float_add py t x)"
| "py_add_float py (PInt n) x = map_sum id (\<lambda>t. float_add py t x) (int_float py n)"
| "py_add_float py (PBool b) x =
     map_sum id (\<lambda>t. float_add py t x) (int_float py (if b then 1 else 0))"
| "py_add_float py PNone x = Inl TypeError"
| "py_add_float py (PStr s) x = Inl TypeError"

text \<open>
  \<^verbatim>\<open>jiggle_randomness(prompt_config, offset)\<close>, with the state \<open>gen\<close> of the random
  generator passed through. The result is the outcome, the dictionary and the generator
  as the call leaves them.
\<close>

definition jiggle_randomness ::
  "('f, 'g) python \<Rightarrow> 'f dict \<Rightarrow> 'f \<Rightarrow> 'g \<Rightarrow> (py_exception + unit) \<times> 'f dict \<times> 'g" where
  "jiggle_randomness py prompt_config offset gen =
     (case dict_getitem prompt_config ''temperature'' of
        Inl e \<Rightarrow> (Inl e, prompt_config, gen)
      | Inr temp \<Rightarrow>
     (let rep_pen_key = (if dict_contains ''frequency_penalty'' prompt_config
                         then ''frequency_penalty'' else ''repetition_penalty'')
      in case dict_getitem prompt_config rep_pen_key of
        Inl e \<Rightarrow> (Inl e, prompt_config, gen)
      | Inr rep_pen \<Rightarrow>
     (let min_offset = float_mul py offset (float_lit_0_3 py)
      in case py_add_float py temp min_offset of
        Inl e \<Rightarrow> (Inl e, prompt_config, gen)
      | Inr temp_low \<Rightarrow>
     (case py_add_float py temp offset of
        Inl e \<Rightarrow> (Inl e, prompt_config, gen)
      | Inr temp_high \<Rightarrow>
     (let (new_temp, gen1) = random_uniform py temp_low temp_high gen;
          prompt_config1 = dict_setitem ''temperature'' (PFloat new_temp) prompt_config
      in case py_add_float py rep_pen (float_mul py min_offset (float_lit_0_3 py)) of
        Inl e \<Rightarrow> (Inl e, prompt_config1, gen1)
      | Inr rep_low \<Rightarrow>
     (case py_add_float py rep_pen (float_mul py offset (float_lit_0_3 py)) of
        Inl e \<Rightarrow> (Inl e, prompt_config1, gen1)
      | Inr rep_high \<Rightarrow>
     (let (new_rep_pen, gen2) = random_uniform py rep_low rep_high gen1
      in (Inr (), dict_setitem rep_pen_key (PFloat new_rep_pen) prompt_config1, gen2))))))))"

subsection \<open>Example values\<close>

text \<open>
  Concrete values on which the theorems below are instantiated: an interpreter whose
  floats are rationals with exact arithmetic and whose generator always draws the lower
  end, an adapter for which the API handles the template, a base template that hands the
  prompt back, a base tuning step that switches streaming off, and a service that answers
  every request with one choice.
\<close>

definition example_python :: "(rat, nat) python" where
  "example_python =
     \<lparr> float_bool = (\<lambda>x. x \<noteq> 0),
       float_int = (\<lambda>x. Inr (if 0 \<le> x then \<lfloor>x\<rfloor> else \<lceil>x\<rceil>)),
       str_int = (\<lambda>s. Inl ValueError),
       int_float = (\<lambda>n. Inr (of_int n)),
       float_add = (\<lambda>x y. x + y),
       float_mul = (\<lambda>x y. x * y),
       float_lit_0_3 = 3 / 10,
       random_uniform = (\<lambda>a b gen. (a, Suc gen)) \<rparr>"

definition example_adapter :: "rat adapter" where
  "example_adapter =
     \<lparr> model_name = PStr ''m'', api_key = PStr ''k'',
       api_url = PStr ''http://localhost:5000'', max_token_length = PInt 8192,
       api_handles_prompt_template = PBool True,
       client = AsyncOpenAI (PStr ''http://localhost:5000'') (PStr ''k'') \<rparr>"

definition example_base_template :: "string \<Rightarrow> string \<Rightarrow> py_exception + string" where
  "example_base_template system_message prompt = Inr prompt"

definition example_base_tune ::
  "rat dict \<Rightarrow> string \<Rightarrow> (py_exception + unit) \<times> rat dict" where
  "example_base_tune parameters kind = (Inr (), dict_setitem ''stream'' (PBool False) parameters)"

definition example_remote :: "rat pyval \<Rightarrow> rat dict \<Rightarrow> py_exception + completion" where
  "example_remote model parameters = Inr (Completion [Choice '' Hi there. '', Choice ''other''])"

definition example_denied_remote :: "rat pyval \<Rightarrow> rat dict \<Rightarrow> py_exception + completion" where
  "example_denied_remote model parameters = Inl PermissionDeniedError"


text \<open>
  Keyword dictionaries for \<^verbatim>\<open>reconfigure\<close>: one that gives every recognised key a
  true value, and one whose model is the empty string and whose token length is zero.
\<close>

definition example_kwargs :: "rat dict" where
  "example_kwargs =
     dict_of [(''model'', PStr ''gpt''), (''api_url'', PStr ''http://h''),
              (''max_token_length'', PInt 4096), (''api_key'', PStr ''s''),
              (''api_handles_prompt_template'', PBool False)]"


text \<open>Tuning parameters, and a jitter configuration with and without its temperature.\<close>

definition example_parameters :: "rat dict" where
  "example_parameters =
     dict_of [(''temperature'', PFloat (7 / 10)), (''repetition_penalty'', PFloat (11 / 10)),
              (''top_k'', PInt 40)]"

definition example_config :: "rat dict" where
  "example_config =
     dict_of [(''temperature'', PFloat (7 / 10)), (''frequency_penalty'', PFloat (2 / 10))]"

definition example_config_no_temperature :: "rat dict" where
  "example_config_no_temperature = dict_of [(''frequency_penalty'', PFloat (2 / 10))]"

section \<open>Facts about the string operations\<close>

lemma py_in_split_first: "py_in sep s \<longleftrightarrow> split_first sep s \<noteq> None"
  by (induction s) auto

text \<open>A split is at an occurrence of the separator, and no occurrence starts before it.\<close>

lemma split_first_append:
  "split_first sep s = Some (l, r) \<Longrightarrow> s = l @ sep @ r"
proof (induction s arbitrary: l)
  case Nil
  then show ?case by (simp split: if_splits)
next
  case (Cons c cs)
  show ?case
  proof (cases "prefix sep (c # cs)")
    case True
    with Cons.prems have "l = []" and "r = drop (length sep) (c # cs)" by simp_all
    with True show ?thesis by (metis append_Nil prefix_def append_eq_conv_conj)
  next
    case False
    with Cons.prems obtain l' where "split_first sep cs = Some (l', r)" and "l = c # l'"
      by (auto split: prod.splits)
    with Cons.IH show ?thesis by simp
  qed
qed

lemma py_replace_split_first:
  "sep \<noteq> [] \<Longrightarrow> split_first sep s = Some (l, r) \<Longrightarrow>
     py_replace sep new s = l @ new @ py_replace sep new r"
proof (induction s arbitrary: l)
  case Nil
  then show ?case by simp
next
  case (Cons c cs)
  show ?case
  proof (cases "prefix sep (c # cs)")
    case True
    with Cons.prems show ?thesis by simp
  next
    case False
    with Cons.prems obtain l' where "split_first sep cs = Some (l', r)" and "l = c # l'"
      by (auto split: prod.splits)
    with Cons.IH Cons.prems(1) False show ?thesis by simp
  qed
qed

lemma py_replace_absent:
  "sep \<noteq> [] \<Longrightarrow> \<not> py_in sep s \<Longrightarrow> py_replace sep new s = s"
  by (induction s) auto

lemma bot_marker_nonempty: "bot_marker \<noteq> []"
  by (simp add: bot_marker_def)

lemma prompt_template_api_handles:
  assumes "truthy py (api_handles_prompt_template self)"
  shows "prompt_template py base_prompt_template self system_message prompt =
           Inr (case split_first bot_marker prompt of
                  None \<Rightarrow> prompt
                | Some (left, right) \<Rightarrow>
                    if right \<noteq> []
                    then left @ response_cue @ py_replace bot_marker response_cue right
                    else left)"
proof (cases "split_first bot_marker prompt")
  case None
  then have "\<not> py_in bot_marker prompt" by (simp add: py_in_split_first)
  with assms None show ?thesis by (simp add: prompt_template_def)
next
  case (Some lr)
  obtain left right where lr: "lr = (left, right)" by (cases lr)
  from Some have found: "py_in bot_marker prompt" by (simp add: py_in_split_first)
  have "py_replace bot_marker new prompt = left @ new @ py_replace bot_marker new right" for new
    using Some lr bot_marker_nonempty by (simp add: py_replace_split_first)
  with assms found Some lr bot_marker_nonempty show ?thesis
    by (simp add: prompt_template_def py_split1_def)
qed

section \<open>Prompt assembly when the API handles the template\<close>

text \<open>
  Claim C1, as the code has it. When the API handles the template, a prompt without the
  marker \<^verbatim>\<open><|BOT|>\<close> is returned as it is. Otherwise the prompt is split at the first
  marker: when text follows it, every marker of the prompt, the first one and each later
  one, is replaced by the cue; when nothing follows it, the marker is removed and the text
  before it is the result. A prompt with no second marker is therefore treated as the
  specification says, the first marker alone being replaced or removed.
\<close>

theorem prompt_template_replaces_every_marker:
  "truthy py (api_handles_prompt_template self) \<Longrightarrow>
     prompt_template py base_prompt_template self system_message prompt =
       Inr (case split_first bot_marker prompt of
              None \<Rightarrow> prompt
            | Some (left, right) \<Rightarrow>
                if right \<noteq> []
                then left @ response_cue @ py_replace bot_marker response_cue right
                else left) \<and>
     ((case split_first bot_marker prompt of
         None \<Rightarrow> True
       | Some (left, right) \<Rightarrow> \<not> py_in bot_marker right) \<longrightarrow>
      prompt_template py base_prompt_template self system_message prompt =
        Inr (prompt_template_first_marker_only prompt))"
proof -
  assume flag: "truthy py (api_handles_prompt_template self)"
  have single: "prompt_template py base_prompt_template self system_message prompt =
        Inr (prompt_template_first_marker_only prompt)"
    if "case split_first bot_marker prompt of
          None \<Rightarrow> True
        | Some (left, right) \<Rightarrow> \<not> py_in bot_marker right"
    using that bot_marker_nonempty
    unfolding prompt_template_api_handles[OF flag] prompt_template_first_marker_only_def
    by (auto split: option.splits simp: py_replace_absent)
  with prompt_template_api_handles[OF flag] show ?thesis by blast
qed

text \<open>
  The two examples of the specification: \<^verbatim>\<open>"Hello <|BOT|>world"\<close> and
  \<^verbatim>\<open>"Hello <|BOT|>"\<close>.
\<close>

theorem prompt_template_replaces_every_marker_witness:
  "truthy example_python (api_handles_prompt_template example_adapter) \<and>
   prompt_template example_python example_base_template example_adapter []
     ''Hello <|BOT|>world'' = Inr ''Hello \<newline>Start your response with: world'' \<and>
   prompt_template example_python example_base_template example_adapter []
     ''Hello <|BOT|>'' = Inr ''Hello ''"
proof -
  have flag: "truthy example_python (api_handles_prompt_template example_adapter)"
    by (simp add: example_adapter_def)
  show ?thesis
    using flag
      prompt_template_replaces_every_marker [OF flag, of example_base_template "[]"
        "''Hello <|BOT|>world''"]
      prompt_template_replaces_every_marker [OF flag, of example_base_template "[]"
        "''Hello <|BOT|>''"]
    by (simp add: bot_marker_def response_cue_def)
qed

text \<open>
  Claim C1 as it is stated fails on a prompt with two markers: the text after the first
  marker does not stay as it is, its marker is replaced as well.
\<close>

theorem prompt_template_second_marker_counterexample:
  "prompt_template example_python example_base_template example_adapter []
     ''<|BOT|>a<|BOT|>b'' =
     Inr ''\<newline>Start your response with: a\<newline>Start your response with: b'' \<and>
   prompt_template example_python example_base_template example_adapter []
     ''<|BOT|>a<|BOT|>b'' \<noteq> Inr (prompt_template_first_marker_only ''<|BOT|>a<|BOT|>b'')"
  by (simp add: prompt_template_def example_adapter_def py_split1_def
        prompt_template_first_marker_only_def bot_marker_def response_cue_def)

section \<open>Facts about dictionaries\<close>

lemma dict_keys_dom: "set (dict_keys d) = dom (DAList.lookup d)"
  unfolding dict_keys_def by transfer (simp add: dom_map_of_conv_image_fst)

lemma dict_contains_lookup: "dict_contains k d \<longleftrightarrow> DAList.lookup d k \<noteq> None"
  by (auto simp: dict_contains_def dict_keys_dom)

lemma distinct_dict_keys: "distinct (dict_keys d)"
  by (simp add: dict_keys_def)

lemma lookup_setitem:
  "DAList.lookup (dict_setitem k v d) k' = (if k = k' then Some v else DAList.lookup d k')"
  by (simp add: dict_setitem_def DAList.lookup_update)


lemma dict_of_snoc: "dict_of (kvs @ [(k, v)]) = dict_setitem k v (dict_of kvs)"
  by (simp add: dict_of_def)

lemma lookup_dict_of: "DAList.lookup (dict_of kvs) k = map_of (rev kvs) k"
proof (induction kvs rule: rev_induct)
  case Nil
  show ?case by (simp add: dict_of_def)
next
  case (snoc kv kvs)
  obtain k' v' where "kv = (k', v')" by (cases kv)
  with snoc show ?case by (simp add: dict_of_snoc lookup_setitem)
qed

section \<open>Parameter tuning\<close>

text \<open>
  The loop over the keys of a dictionary deletes each key once, so that no deletion
  fails, and leaves the entries of the allowed keys as they were.
\<close>

lemma drop_unsupported_lookup:
  "distinct ks \<Longrightarrow> set ks \<subseteq> dom (DAList.lookup d) \<Longrightarrow>
     \<exists>d'. drop_unsupported ks d = (Inr (), d') \<and>
          DAList.lookup d' =
            (\<lambda>k. if k \<in> set ks \<and> k \<notin> set allowed_params then None else DAList.lookup d k)"
proof (induction ks arbitrary: d)
  case Nil
  then show ?case by simp
next
  case (Cons param rest)
  show ?case
  proof (cases "param \<in> set allowed_params")
    case True
    from Cons.prems have "distinct rest" "set rest \<subseteq> dom (DAList.lookup d)" by auto
    from Cons.IH[OF this] obtain d' where
      "drop_unsupported rest d = (Inr (), d')"
      "DAList.lookup d' =
         (\<lambda>k. if k \<in> set rest \<and> k \<notin> set allowed_params then None else DAList.lookup d k)"
      by blast
    with True show ?thesis by auto
  next
    case False
    from Cons.prems have here: "dict_contains param d"
      by (auto simp: dict_contains_lookup)
    from Cons.prems
    have "distinct rest" "set rest \<subseteq> dom (DAList.lookup (DAList.delete param d))"
      by auto
    from Cons.IH[OF this] obtain d' where
      "drop_unsupported rest (DAList.delete param d) = (Inr (), d')"
      "DAList.lookup d' =
         (\<lambda>k. if k \<in> set rest \<and> k \<notin> set allowed_params then None
              else DAList.lookup (DAList.delete param d) k)"
      by blast
    with False here show ?thesis by (auto simp: dict_delitem_def)
  qed
qed

lemma rename_repetition_penalty:
  "(if dict_contains ''repetition_penalty'' d
    then (case dict_pop ''repetition_penalty'' d of
            Inl e \<Rightarrow> Inl e
          | Inr (v, popped) \<Rightarrow> Inr (dict_setitem ''presence_penalty'' v popped))
    else Inr d) =
   Inr (case DAList.lookup d ''repetition_penalty'' of
          None \<Rightarrow> d
        | Some v \<Rightarrow>
            DAList.update ''presence_penalty'' v (DAList.delete ''repetition_penalty'' d))"
  by (auto simp: dict_contains_lookup dict_pop_def dict_setitem_def split: option.splits)

text \<open>
  When the base step returns, so does the adapter's: what is left is, for each allowed
  key, the entry that the base step left, except that \<^verbatim>\<open>presence_penalty\<close> has the
  value of \<^verbatim>\<open>repetition_penalty\<close> when that key was there.
\<close>

lemma tune_prompt_parameters_returns:
  assumes "base_tune parameters kind = (Inr (), parameters0)"
  shows "\<exists>tuned. tune_prompt_parameters base_tune parameters kind = (Inr (), tuned) \<and>
           DAList.lookup tuned =
             (\<lambda>k. if k \<in> set allowed_params
                   then (if k = ''presence_penalty''
                         then (case DAList.lookup parameters0 ''repetition_penalty'' of
                                 None \<Rightarrow> DAList.lookup parameters0 ''presence_penalty''
                               | Some v \<Rightarrow> Some v)
                         else DAList.lookup parameters0 k)
                   else None)"
proof -
  define parameters1 where "parameters1 =
     (case DAList.lookup parameters0 ''repetition_penalty'' of
        None \<Rightarrow> parameters0
      | Some v \<Rightarrow>
          DAList.update ''presence_penalty'' v (DAList.delete ''repetition_penalty'' parameters0))"
  have tune: "tune_prompt_parameters base_tune parameters kind =
                drop_unsupported (dict_keys parameters1) parameters1"
    unfolding tune_prompt_parameters_def assms rename_repetition_penalty parameters1_def
    by simp
  from drop_unsupported_lookup[of "dict_keys parameters1" parameters1]
  obtain tuned where tuned:
    "drop_unsupported (dict_keys parameters1) parameters1 = (Inr (), tuned)"
    "DAList.lookup tuned =
       (\<lambda>k. if k \<in> set (dict_keys parameters1) \<and> k \<notin> set allowed_params then None
            else DAList.lookup parameters1 k)"
    by (auto simp: distinct_dict_keys dict_keys_dom)
  have "DAList.lookup tuned k =
          (if k \<in> set allowed_params
           then (if k = ''presence_penalty''
                 then (case DAList.lookup parameters0 ''repetition_penalty'' of
                         None \<Rightarrow> DAList.lookup parameters0 ''presence_penalty''
                       | Some v \<Rightarrow> Some v)
                 else DAList.lookup parameters0 k)
           else None)" for k
    unfolding tuned(2) parameters1_def
    by (auto simp: dict_keys_dom allowed_params_def DAList.lookup_update split: option.splits)
  with tune tuned(1) show ?thesis by auto
qed

lemma tune_prompt_parameters_base_returned:
  assumes "tune_prompt_parameters base_tune parameters kind = (Inr (), tuned)"
  shows "\<exists>parameters0. base_tune parameters kind = (Inr (), parameters0)"
proof (cases "base_tune parameters kind")
  case (Pair outcome parameters0)
  with assms show ?thesis
    by (cases outcome) (auto simp: tune_prompt_parameters_def)
qed

lemma example_base_tune_lookup:
  "example_base_tune example_parameters kind =
     (Inr (), dict_setitem ''stream'' (PBool False) example_parameters) \<and>
   DAList.lookup (dict_setitem ''stream'' (PBool False) example_parameters)
     ''repetition_penalty'' = Some (PFloat (11 / 10)) \<and>
   DAList.lookup example_parameters ''repetition_penalty'' = Some (PFloat (11 / 10))"
  by (simp add: example_base_tune_def example_parameters_def lookup_setitem lookup_dict_of)

text \<open>
  Claim C4. Whenever \<^verbatim>\<open>tune_prompt_parameters\<close> returns, every key left in the
  dictionary is one of \<^verbatim>\<open>max_tokens\<close>, \<^verbatim>\<open>presence_penalty\<close>, \<^verbatim>\<open>top_p\<close> and
  \<^verbatim>\<open>temperature\<close>, whatever the tuning step of the base class did to the dictionary
  before; and it returns whenever that base step returns.
\<close>

theorem tune_prompt_parameters_keys_allowed:
  "(\<forall>tuned. tune_prompt_parameters base_tune parameters kind = (Inr (), tuned) \<longrightarrow>
      set (dict_keys tuned) \<subseteq> {''max_tokens'', ''presence_penalty'', ''top_p'', ''temperature''}) \<and>
   (\<forall>parameters0. base_tune parameters kind = (Inr (), parameters0) \<longrightarrow>
      (\<exists>tuned. tune_prompt_parameters base_tune parameters kind = (Inr (), tuned)))"
proof (intro conjI allI impI)
  fix tuned
  assume returned: "tune_prompt_parameters base_tune parameters kind = (Inr (), tuned)"
  then obtain parameters0 where "base_tune parameters kind = (Inr (), parameters0)"
    using tune_prompt_parameters_base_returned by blast
  with tune_prompt_parameters_returns[of base_tune parameters kind parameters0] returned
  have "dom (DAList.lookup tuned) \<subseteq> set allowed_params"
    by (auto split: if_splits)
  then show "set (dict_keys tuned) \<subseteq> {''max_tokens'', ''presence_penalty'', ''top_p'', ''temperature''}"
    by (simp add: dict_keys_dom allowed_params_def)
next
  fix parameters0
  assume "base_tune parameters kind = (Inr (), parameters0)"
  with tune_prompt_parameters_returns[of base_tune parameters kind parameters0]
  show "\<exists>tuned. tune_prompt_parameters base_tune parameters kind = (Inr (), tuned)"
    by blast
qed

theorem tune_prompt_parameters_keys_allowed_witness:
  "\<exists>tuned. tune_prompt_parameters example_base_tune example_parameters ''conversation'' =
             (Inr (), tuned) \<and>
           set (dict_keys tuned) \<subseteq> {''max_tokens'', ''presence_penalty'', ''top_p'', ''temperature''}"
  using tune_prompt_parameters_keys_allowed
          [of example_base_tune example_parameters "''conversation''"]
        example_base_tune_lookup [of "''conversation''"]
  by blast



section \<open>Generation\<close>

text \<open>
  \<^verbatim>\<open>generate\<close> is a function into texts: the two handlers between them match every
  exception that the call, or the reading of its response, raises, and both return.
  The theorems below say what it returns and emits in each case. The outcome of the call
  is the first component of \<open>completions_create\<close> on the dictionary that holds the prompt.
\<close>

lemma example_parameters_no_model:
  "\<not> dict_contains ''model'' (dict_setitem ''prompt'' v example_parameters)"
  by (simp add: dict_contains_lookup lookup_setitem lookup_dict_of example_parameters_def)



text \<open>
  Claim C8. When the call succeeds and the response has a first choice, \<^verbatim>\<open>generate\<close>
  returns the text of that choice as it is, and emits no error status.
\<close>

theorem generate_returns_first_choice:
  "fst (completions_create remote (model_name self)
          (dict_setitem ''prompt'' (PStr prompt) parameters)) = Inr response \<Longrightarrow>
   choices response = first # others \<Longrightarrow>
     fst (generate remote self prompt parameters kind) = choice_text first \<and>
     filter is_error_emit (snd (snd (generate remote self prompt parameters kind))) = []"
  by (cases "dict_contains ''model'' (dict_setitem ''prompt'' (PStr prompt) parameters)")
     (simp_all add: generate_def Let_def completions_create_def is_error_emit_def)

text \<open>The text keeps the blanks around it.\<close>

theorem generate_returns_first_choice_witness:
  "fst (completions_create example_remote (model_name example_adapter)
          (dict_setitem ''prompt'' (PStr ''Hi'') example_parameters)) =
     Inr (Completion [Choice '' Hi there. '', Choice ''other'']) \<and>
   fst (generate example_remote example_adapter ''Hi'' example_parameters ''x'') =
     '' Hi there. ''"
proof -
  have answered:
    "fst (completions_create example_remote (model_name example_adapter)
            (dict_setitem ''prompt'' (PStr ''Hi'') example_parameters)) =
       Inr (Completion [Choice '' Hi there. '', Choice ''other''])"
    by (simp add: completions_create_def example_parameters_no_model example_remote_def)
  from generate_returns_first_choice [OF answered, of "Choice '' Hi there. ''"
         "[Choice ''other'']" "''x''"] answered
  show ?thesis by simp
qed

text \<open>
  Claim C9. Whatever the call does, the dictionary that \<^verbatim>\<open>generate\<close> leaves is the one
  it was given with the key \<^verbatim>\<open>prompt\<close> bound to the prompt as given, untrimmed; the
  binding is made before the call, every request that is sent carries it, and no path
  takes it back.
\<close>

theorem generate_leaves_prompt_in_parameters:
  "fst (snd (generate remote self prompt parameters kind)) =
     dict_setitem ''prompt'' (PStr prompt) parameters \<and>
   DAList.lookup (fst (snd (generate remote self prompt parameters kind))) ''prompt'' =
     Some (PStr prompt) \<and>
   (\<forall>model sent.
       Request model sent \<in> set (snd (snd (generate remote self prompt parameters kind))) \<longrightarrow>
       DAList.lookup sent ''prompt'' = Some (PStr prompt))"
proof (cases "dict_contains ''model'' (dict_setitem ''prompt'' (PStr prompt) parameters)")
  case True
  then show ?thesis
    by (simp add: generate_def Let_def completions_create_def lookup_setitem)
next
  case False
  show ?thesis
  proof (cases "remote (model_name self) (dict_setitem ''prompt'' (PStr prompt) parameters)")
    case (Inl raised)
    with False show ?thesis
      by (simp add: generate_def Let_def completions_create_def lookup_setitem)
  next
    case (Inr response)
    with False show ?thesis
      by (cases "choices response")
         (simp_all add: generate_def Let_def completions_create_def lookup_setitem)
  qed
qed

theorem generate_leaves_prompt_in_parameters_witness:
  "Request (PStr ''m'') (dict_setitem ''prompt'' (PStr '' Hi '') example_parameters)
     \<in> set (snd (snd (generate example_denied_remote example_adapter '' Hi ''
                example_parameters ''x''))) \<and>
   DAList.lookup (dict_setitem ''prompt'' (PStr '' Hi '') example_parameters) ''prompt'' =
     Some (PStr '' Hi '') \<and>
   DAList.lookup
     (fst (snd (generate example_denied_remote example_adapter '' Hi '' example_parameters
        ''x''))) ''prompt'' = Some (PStr '' Hi '')"
proof -
  have sent:
    "Request (PStr ''m'') (dict_setitem ''prompt'' (PStr '' Hi '') example_parameters)
       \<in> set (snd (snd (generate example_denied_remote example_adapter '' Hi ''
                  example_parameters ''x'')))"
    by (simp add: generate_def Let_def completions_create_def example_parameters_no_model
          example_denied_remote_def example_adapter_def)
  from sent generate_leaves_prompt_in_parameters
         [of example_denied_remote example_adapter "'' Hi ''" example_parameters "''x''"]
  show ?thesis by blast
qed

section \<open>Configuration\<close>

text \<open>Each conditional assignment of \<^verbatim>\<open>reconfigure\<close>, taken alone.\<close>

lemma assign_if_present:
  "(if dict_contains k d then map_sum id f (dict_getitem d k) else Inr s) =
     Inr (case DAList.lookup d k of None \<Rightarrow> s | Some v \<Rightarrow> f v)"
  by (auto simp: dict_contains_lookup dict_getitem_def split: option.splits)

lemma assign_if_true:
  "(if truthy py (dict_get d k PNone) then map_sum id f (dict_getitem d k) else Inr s) =
     Inr (if truthy py (dict_get d k PNone) then f (dict_get d k PNone) else s)"
  by (auto simp: dict_get_def dict_getitem_def split: option.splits)

lemma assign_max_token_length:
  "(if dict_contains k d
    then (case dict_getitem d k of
            Inl e \<Rightarrow> Inl e
          | Inr v \<Rightarrow> if truthy py v then map_sum id f (py_int py v) else Inr s8192)
    else Inr s) =
   (case DAList.lookup d k of
      None \<Rightarrow> Inr s
    | Some v \<Rightarrow> if truthy py v then map_sum id f (py_int py v) else Inr s8192)"
  by (auto simp: dict_contains_lookup dict_getitem_def split: option.splits)

text \<open>
  The whole of \<^verbatim>\<open>reconfigure\<close>: it raises exactly when \<^verbatim>\<open>int\<close> does, with the model
  name and the URL already assigned; otherwise it returns with every attribute set from
  the keywords and a handle constructed from the new URL and key.
\<close>

lemma reconfigure_stages:
  "reconfigure py kwargs self =
     (case (case DAList.lookup kwargs ''max_token_length'' of
              None \<Rightarrow> Inr (max_token_length self)
            | Some v \<Rightarrow>
                if truthy py v then map_sum id PInt (py_int py v) else Inr (PInt 8192)) of
        Inl e \<Rightarrow>
          (Inl e,
           self\<lparr>model_name := py_or py (dict_get kwargs ''model'' PNone) (model_name self),
                api_url := dict_get kwargs ''api_url'' (api_url self)\<rparr>)
      | Inr tokens \<Rightarrow>
          (Inr (),
           self\<lparr>model_name :=
                  py_or py (dict_get kwargs ''model'' PNone)
                    (py_or py (dict_get kwargs ''model_name'' PNone) (model_name self)),
                api_url := dict_get kwargs ''api_url'' (api_url self),
                max_token_length := tokens,
                api_key := dict_get kwargs ''api_key'' (api_key self),
                api_handles_prompt_template :=
                  dict_get kwargs ''api_handles_prompt_template''
                    (api_handles_prompt_template self),
                client := AsyncOpenAI (dict_get kwargs ''api_url'' (api_url self))
                            (dict_get kwargs ''api_key'' (api_key self))\<rparr>))"
proof (cases "DAList.lookup kwargs ''max_token_length''")
  case None
  then show ?thesis
    unfolding reconfigure_def assign_if_present assign_if_true assign_max_token_length
    by (simp add: set_client_def Let_def dict_get_def py_or_def split: option.splits)
next
  case (Some v)
  show ?thesis
  proof (cases "truthy py v")
    case False
    with Some show ?thesis
      unfolding reconfigure_def assign_if_present assign_if_true assign_max_token_length
      by (simp add: set_client_def Let_def dict_get_def py_or_def split: option.splits)
  next
    case True
    show ?thesis
    proof (cases "py_int py v")
      case (Inl e)
      with Some True show ?thesis
        unfolding reconfigure_def assign_if_present assign_if_true assign_max_token_length
        by (simp add: dict_get_def py_or_def split: option.splits)
    next
      case (Inr n)
      with Some True show ?thesis
        unfolding reconfigure_def assign_if_present assign_if_true assign_max_token_length
        by (simp add: set_client_def Let_def dict_get_def py_or_def split: option.splits)
    qed
  qed
qed


lemma set_client_flag:
  "api_handles_prompt_template (set_client py kwargs self) =
     dict_get kwargs ''api_handles_prompt_template'' (api_handles_prompt_template self)"
  by (simp add: set_client_def Let_def)

lemma example_kwargs_lookup:
  "DAList.lookup example_kwargs ''max_token_length'' = Some (PInt 4096) \<and>
   DAList.lookup example_kwargs ''api_handles_prompt_template'' = Some (PBool False) \<and>
   dict_get example_kwargs ''model'' PNone = PStr ''gpt'' \<and>
   dict_get example_kwargs ''api_url'' dflt = PStr ''http://h'' \<and>
   dict_get example_kwargs ''api_key'' dflt = PStr ''s'' \<and>
   dict_get example_kwargs ''api_handles_prompt_template'' dflt = PBool False"
  by (simp add: example_kwargs_def lookup_dict_of dict_get_def)





text \<open>
  Claim C7. After any sequence of \<^verbatim>\<open>reconfigure\<close> and \<^verbatim>\<open>set_client\<close> calls, from any
  adapter, \<^verbatim>\<open>can_be_coerced\<close> is the negation of the stored flag
  \<^verbatim>\<open>api_handles_prompt_template\<close>; and a flag given to either call is the one that
  \<^verbatim>\<open>can_be_coerced\<close> negates afterwards.
\<close>

theorem can_be_coerced_negates_flag:
  "can_be_coerced py (run_calls py calls self) =
     (\<not> truthy py (api_handles_prompt_template (run_calls py calls self))) \<and>
   (DAList.lookup kwargs ''api_handles_prompt_template'' = Some flag \<longrightarrow>
      can_be_coerced py (set_client py kwargs self) = (\<not> truthy py flag)) \<and>
   (DAList.lookup kwargs ''api_handles_prompt_template'' = Some flag \<and>
    fst (reconfigure py kwargs self) = Inr () \<longrightarrow>
      can_be_coerced py (snd (reconfigure py kwargs self)) = (\<not> truthy py flag))"
proof (intro conjI impI)
  show "can_be_coerced py (run_calls py calls self) =
     (\<not> truthy py (api_handles_prompt_template (run_calls py calls self)))"
    by (simp add: can_be_coerced_def)
next
  assume "DAList.lookup kwargs ''api_handles_prompt_template'' = Some flag"
  then show "can_be_coerced py (set_client py kwargs self) = (\<not> truthy py flag)"
    by (simp add: can_be_coerced_def set_client_flag dict_get_def)
next
  assume given: "DAList.lookup kwargs ''api_handles_prompt_template'' = Some flag \<and>
    fst (reconfigure py kwargs self) = Inr ()"
  show "can_be_coerced py (snd (reconfigure py kwargs self)) = (\<not> truthy py flag)"
  proof (cases "DAList.lookup kwargs ''max_token_length''")
    case None
    with given show ?thesis
      by (simp add: can_be_coerced_def reconfigure_stages dict_get_def)
  next
    case (Some v)
    with given show ?thesis
      by (cases "py_int py v")
         (simp_all add: can_be_coerced_def reconfigure_stages dict_get_def split: if_splits)
  qed
qed

theorem can_be_coerced_negates_flag_witness:
  "\<not> can_be_coerced example_python example_adapter \<and>
   DAList.lookup example_kwargs ''api_handles_prompt_template'' = Some (PBool False) \<and>
   fst (reconfigure example_python example_kwargs example_adapter) = Inr () \<and>
   can_be_coerced example_python (snd (reconfigure example_python example_kwargs example_adapter)) \<and>
   can_be_coerced example_python (set_client example_python example_kwargs example_adapter) \<and>
   can_be_coerced example_python
     (run_calls example_python [Reconfigure example_kwargs] example_adapter)"
proof -
  have returns: "fst (reconfigure example_python example_kwargs example_adapter) = Inr ()"
    by (simp add: reconfigure_stages example_kwargs_lookup)
  have flag: "DAList.lookup example_kwargs ''api_handles_prompt_template'' = Some (PBool False)"
    by (simp add: example_kwargs_lookup)
  have after: "api_handles_prompt_template
      (run_calls example_python [Reconfigure example_kwargs] example_adapter) = PBool False"
    by (simp add: reconfigure_stages example_kwargs_lookup)
  from returns flag after
    can_be_coerced_negates_flag [of example_python "[]" example_adapter example_kwargs
      "PBool False"]
    can_be_coerced_negates_flag [of example_python "[Reconfigure example_kwargs]"
      example_adapter example_kwargs "PBool False"]
  show ?thesis
    by (simp add: example_adapter_def)
qed

section \<open>Randomised jitter\<close>

text \<open>
  Claim C10. \<^verbatim>\<open>jiggle_randomness\<close> raises \<^verbatim>\<open>KeyError\<close>, leaving the dictionary and
  the generator as they were, when the dictionary has no key \<^verbatim>\<open>temperature\<close> or has
  neither \<^verbatim>\<open>frequency_penalty\<close> nor \<^verbatim>\<open>repetition_penalty\<close>; so it returns only
  when \<^verbatim>\<open>temperature\<close> and one of the two other keys are there, and it does return
  when the values it reads are floats.
\<close>

theorem jiggle_randomness_key_errors:
  "(\<not> dict_contains ''temperature'' prompt_config \<or>
    (\<not> dict_contains ''frequency_penalty'' prompt_config \<and>
     \<not> dict_contains ''repetition_penalty'' prompt_config) \<longrightarrow>
      jiggle_randomness py prompt_config offset gen = (Inl KeyError, prompt_config, gen)) \<and>
   (fst (jiggle_randomness py prompt_config offset gen) = Inr () \<longrightarrow>
      dict_contains ''temperature'' prompt_config \<and>
      (dict_contains ''frequency_penalty'' prompt_config \<or>
       dict_contains ''repetition_penalty'' prompt_config)) \<and>
   (DAList.lookup prompt_config ''temperature'' = Some (PFloat temp) \<and>
    DAList.lookup prompt_config
      (if dict_contains ''frequency_penalty'' prompt_config
       then ''frequency_penalty'' else ''repetition_penalty'') = Some (PFloat rep_pen) \<longrightarrow>
      fst (jiggle_randomness py prompt_config offset gen) = Inr ())"
proof (intro conjI)
  show "\<not> dict_contains ''temperature'' prompt_config \<or>
    (\<not> dict_contains ''frequency_penalty'' prompt_config \<and>
     \<not> dict_contains ''repetition_penalty'' prompt_config) \<longrightarrow>
      jiggle_randomness py prompt_config offset gen = (Inl KeyError, prompt_config, gen)"
    by (auto simp: jiggle_randomness_def dict_getitem_def dict_contains_lookup Let_def
             split: option.splits)
  then show "fst (jiggle_randomness py prompt_config offset gen) = Inr () \<longrightarrow>
      dict_contains ''temperature'' prompt_config \<and>
      (dict_contains ''frequency_penalty'' prompt_config \<or>
       dict_contains ''repetition_penalty'' prompt_config)"
    by auto
  show "DAList.lookup prompt_config ''temperature'' = Some (PFloat temp) \<and>
    DAList.lookup prompt_config
      (if dict_contains ''frequency_penalty'' prompt_config
       then ''frequency_penalty'' else ''repetition_penalty'') = Some (PFloat rep_pen) \<longrightarrow>
      fst (jiggle_randomness py prompt_config offset gen) = Inr ()"
    by (auto simp: jiggle_randomness_def dict_getitem_def dict_contains_lookup Let_def
             split: option.splits prod.splits)
qed

theorem jiggle_randomness_key_errors_witness:
  "\<not> dict_contains ''temperature'' example_config_no_temperature \<and>
   jiggle_randomness example_python example_config_no_temperature (3 / 10) 0 =
     (Inl KeyError, example_config_no_temperature, 0) \<and>
   fst (jiggle_randomness example_python example_config (3 / 10) 0) = Inr () \<and>
   dict_contains ''temperature'' example_config \<and>
   dict_contains ''frequency_penalty'' example_config"
proof -
  have absent: "\<not> dict_contains ''temperature'' example_config_no_temperature"
    by (simp add: dict_contains_lookup lookup_dict_of example_config_no_temperature_def)
  have present:
    "DAList.lookup example_config ''temperature'' = Some (PFloat (7 / 10))"
    "DAList.lookup example_config ''frequency_penalty'' = Some (PFloat (2 / 10))"
    by (simp_all add: lookup_dict_of example_config_def)
  from absent present
    jiggle_randomness_key_errors [of example_config_no_temperature example_python "3 / 10" 0]
    jiggle_randomness_key_errors [of example_config example_python "3 / 10" 0
      "7 / 10" "2 / 10"]
  show ?thesis
    by (simp add: dict_contains_lookup)
qed

text \<open>
  What is drawn: on float values, the new temperature is the draw between
  \<open>temp + min_offset\<close> and \<open>temp + offset\<close>, and the new repetition value, under the
  key that was read, is the draw between \<open>rep_pen + min_offset * 0.3\<close> and
  \<open>rep_pen + offset * 0.3\<close>, where \<open>min_offset = offset * 0.3\<close>; sums and products are
  those of the interpreter's floats.
\<close>

lemma jiggle_randomness_draws:
  assumes "DAList.lookup prompt_config ''temperature'' = Some (PFloat temp)"
    and "rep_pen_key = (if dict_contains ''frequency_penalty'' prompt_config
                        then ''frequency_penalty'' else ''repetition_penalty'')"
    and "DAList.lookup prompt_config rep_pen_key = Some (PFloat rep_pen)"
    and "min_offset = float_mul py offset (float_lit_0_3 py)"
    and "random_uniform py (float_add py temp min_offset) (float_add py temp offset) gen =
           (new_temp, gen1)"
    and "random_uniform py
           (float_add py rep_pen (float_mul py min_offset (float_lit_0_3 py)))
           (float_add py rep_pen (float_mul py offset (float_lit_0_3 py))) gen1 =
           (new_rep_pen, gen2)"
  shows "jiggle_randomness py prompt_config offset gen =
           (Inr (),
            dict_setitem rep_pen_key (PFloat new_rep_pen)
              (dict_setitem ''temperature'' (PFloat new_temp) prompt_config),
            gen2)"
  using assms by (simp add: jiggle_randomness_def dict_getitem_def Let_def)

end
